theory Spec2Isabelle
  imports Complex_Main "HOL-Library.Multiset"
begin

section \<open>Measurement tables\<close>

text \<open>
  The quality checker reads two tables, \<open>phoneme_measurements.csv\<close> and
  \<open>word_measurements.csv\<close>, into data frames. A data frame is modelled as the list of
  its rows in index order, a row as a record of the columns the checks read. Python floats
  are modelled as real numbers: every comparison and every arithmetic operation below is
  the exact one, without rounding and without NaN.
\<close>

record phoneme_row =
  file_name :: string
  phoneme :: string
  start_time :: real
  end_time :: real
  duration :: real
  is_vowel :: bool

record word_row =
  w_file :: string
  w_word :: string
  w_start_time :: real
  w_end_time :: real
  w_duration :: real

datatype py_error = ZeroDivisionError

text \<open>\<open>Series.unique()\<close>: the distinct values in order of first appearance.\<close>

fun unique :: "'a list \<Rightarrow> 'a list" where
  "unique [] = []"
| "unique (x # xs) = x # unique (filter (\<lambda>y. y \<noteq> x) xs)"

section \<open>Duration anomalies\<close>

text \<open>The entries of \<open>self.duration_thresholds\<close> that \<open>check_duration_anomalies\<close> reads.\<close>

definition vowel_min :: real where "vowel_min = 0.030"
definition vowel_max :: real where "vowel_max = 0.400"
definition consonant_min :: real where "consonant_min = 0.020"
definition consonant_max :: real where "consonant_max = 0.250"

record duration_item =
  di_file :: string
  di_phoneme :: string
  di_duration :: real
  di_start :: real
  di_end :: real

record duration_anomalies =
  too_short_vowels :: "duration_item list"
  too_long_vowels :: "duration_item list"
  too_short_consonants :: "duration_item list"
  too_long_consonants :: "duration_item list"

definition duration_entry :: "phoneme_row \<Rightarrow> duration_item" where
  "duration_entry row =
     \<lparr>di_file = file_name row, di_phoneme = phoneme row, di_duration = duration row,
      di_start = start_time row, di_end = end_time row\<rparr>"

definition no_duration_anomalies :: duration_anomalies where
  "no_duration_anomalies =
     \<lparr>too_short_vowels = [], too_long_vowels = [],
      too_short_consonants = [], too_long_consonants = []\<rparr>"

text \<open>The body of the loop over \<open>self.phoneme_df.iterrows()\<close>.\<close>

definition duration_step :: "duration_anomalies \<Rightarrow> phoneme_row \<Rightarrow> duration_anomalies" where
  "duration_step anomalies row =
     (if is_vowel row then
        (if duration row < vowel_min then
           anomalies\<lparr>too_short_vowels := too_short_vowels anomalies @ [duration_entry row]\<rparr>
         else if duration row > vowel_max then
           anomalies\<lparr>too_long_vowels := too_long_vowels anomalies @ [duration_entry row]\<rparr>
         else anomalies)
      else
        (if duration row < consonant_min then
           anomalies\<lparr>too_short_consonants := too_short_consonants anomalies @ [duration_entry row]\<rparr>
         else if duration row > consonant_max then
           anomalies\<lparr>too_long_consonants := too_long_consonants anomalies @ [duration_entry row]\<rparr>
         else anomalies))"

definition check_duration_anomalies :: "phoneme_row list \<Rightarrow> duration_anomalies" where
  "check_duration_anomalies phoneme_df = foldl duration_step no_duration_anomalies phoneme_df"

definition anomaly_count :: "duration_anomalies \<Rightarrow> nat" where
  "anomaly_count a =
     length (too_short_vowels a) + length (too_long_vowels a) +
     length (too_short_consonants a) + length (too_long_consonants a)"

section \<open>Timing continuity\<close>

record gap_item =
  g_file :: string
  after_phoneme :: string
  before_phoneme :: string
  gap_ms :: real
  g_time :: real

record overlap_item =
  o_file :: string
  phoneme1 :: string
  phoneme2 :: string
  overlap_ms :: real
  o_time :: real

record timing_issues =
  gaps :: "gap_item list"
  overlaps :: "overlap_item list"

text \<open>
  \<open>DataFrame.sort_values('start_time')\<close> sorts with the library's default algorithm,
  which is not stable: the order in which it leaves rows of equal start time is not fixed
  by the source. The sort is therefore a parameter of the check. All that is known of it
  is that it returns the rows it was given, in ascending order of start time.
\<close>

type_synonym sort_values = "phoneme_row list \<Rightarrow> phoneme_row list"

definition sorts_by_start :: "sort_values \<Rightarrow> bool" where
  "sorts_by_start srt =
     (\<forall>rows. mset (srt rows) = mset rows \<and> sorted (map start_time (srt rows)))"

text \<open>
  \<open>self.phoneme_df[self.phoneme_df['file'] == file_name].sort_values('start_time')\<close>.
\<close>

definition file_phonemes :: "sort_values \<Rightarrow> phoneme_row list \<Rightarrow> string \<Rightarrow> phoneme_row list" where
  "file_phonemes srt phoneme_df name = srt (filter (\<lambda>r. file_name r = name) phoneme_df)"

text \<open>The pairs \<open>(iloc[i], iloc[i + 1])\<close> for \<open>i\<close> in \<open>range(len - 1)\<close>.\<close>

definition consecutive :: "'a list \<Rightarrow> ('a \<times> 'a) list" where
  "consecutive xs = zip xs (tl xs)"

definition gap_entry :: "string \<Rightarrow> phoneme_row \<times> phoneme_row \<Rightarrow> gap_item" where
  "gap_entry name pr =
     \<lparr>g_file = name, after_phoneme = phoneme (fst pr), before_phoneme = phoneme (snd pr),
      gap_ms = (start_time (snd pr) - end_time (fst pr)) * 1000,
      g_time = end_time (fst pr)\<rparr>"

definition overlap_entry :: "string \<Rightarrow> phoneme_row \<times> phoneme_row \<Rightarrow> overlap_item" where
  "overlap_entry name pr =
     \<lparr>o_file = name, phoneme1 = phoneme (fst pr), phoneme2 = phoneme (snd pr),
      overlap_ms = \<bar>start_time (snd pr) - end_time (fst pr)\<bar> * 1000,
      o_time = end_time (fst pr)\<rparr>"

text \<open>The body of the inner loop, for the pair \<open>(current, next_phoneme)\<close>.\<close>

definition timing_step ::
  "string \<Rightarrow> timing_issues \<Rightarrow> phoneme_row \<times> phoneme_row \<Rightarrow> timing_issues" where
  "timing_step name st pr =
     (let current_end = end_time (fst pr);
          next_start = start_time (snd pr);
          gap = next_start - current_end
      in if gap > 0.001 then st\<lparr>gaps := gaps st @ [gap_entry name pr]\<rparr>
         else if gap < - 0.001 then st\<lparr>overlaps := overlaps st @ [overlap_entry name pr]\<rparr>
         else st)"

definition timing_file ::
  "sort_values \<Rightarrow> phoneme_row list \<Rightarrow> timing_issues \<Rightarrow> string \<Rightarrow> timing_issues" where
  "timing_file srt phoneme_df st name =
     foldl (timing_step name) st (consecutive (file_phonemes srt phoneme_df name))"

definition check_timing_gaps :: "sort_values \<Rightarrow> phoneme_row list \<Rightarrow> timing_issues" where
  "check_timing_gaps srt phoneme_df =
     foldl (timing_file srt phoneme_df) \<lparr>gaps = [], overlaps = []\<rparr>
       (unique (map file_name phoneme_df))"

section \<open>Duration distributions\<close>

record outlier_item =
  ol_file :: string
  ol_phoneme :: string
  ol_duration :: real
  mean_duration :: real
  z_score :: real
  ol_time :: real

text \<open>\<open>Series.mean()\<close> of a series without missing values.\<close>

definition series_mean :: "real list \<Rightarrow> real" where
  "series_mean xs = sum_list xs / real (length xs)"

text \<open>
  \<open>Series.std()\<close> of pandas: its default is \<open>ddof=1\<close>, the sum of squared deviations
  is divided by \<open>n - 1\<close>. With fewer than two values the result is NaN, here \<open>None\<close>.
\<close>

definition series_std :: "real list \<Rightarrow> real option" where
  "series_std xs =
     (if length xs < 2 then None
      else Some (sqrt (sum_list (map (\<lambda>x. (x - series_mean xs)\<^sup>2) xs) / real (length xs - 1))))"

text \<open>
  \<open>abs((duration - mean) / std) if std > 0 else 0\<close>; a comparison with NaN is false.
\<close>

definition row_z_score :: "real \<Rightarrow> real option \<Rightarrow> phoneme_row \<Rightarrow> real" where
  "row_z_score mean std row =
     (case std of
        None \<Rightarrow> 0
      | Some s \<Rightarrow> if s > 0 then \<bar>(duration row - mean) / s\<bar> else 0)"

definition outlier_entry :: "string \<Rightarrow> real \<Rightarrow> real \<Rightarrow> phoneme_row \<Rightarrow> outlier_item" where
  "outlier_entry ph mean z row =
     \<lparr>ol_file = file_name row, ol_phoneme = ph, ol_duration = duration row,
      mean_duration = mean, z_score = z, ol_time = start_time row\<rparr>"

text \<open>The body of the inner loop over the rows of one symbol.\<close>

definition outlier_step ::
  "string \<Rightarrow> real \<Rightarrow> real option \<Rightarrow> outlier_item list \<Rightarrow> phoneme_row \<Rightarrow> outlier_item list" where
  "outlier_step ph mean std outliers row =
     (let z = row_z_score mean std row
      in if z > 3 then outliers @ [outlier_entry ph mean z row] else outliers)"

text \<open>The body of the outer loop over \<open>self.phoneme_df['phoneme'].unique()\<close>.\<close>

definition distribution_step ::
  "phoneme_row list \<Rightarrow> outlier_item list \<Rightarrow> string \<Rightarrow> outlier_item list" where
  "distribution_step phoneme_df outliers ph =
     (let phoneme_data = map duration (filter (\<lambda>r. phoneme r = ph) phoneme_df)
      in if length phoneme_data < 3 then outliers
         else
           (let mean = series_mean phoneme_data;
                std = series_std phoneme_data
            in foldl (outlier_step ph mean std) outliers
                 (filter (\<lambda>r. phoneme r = ph) phoneme_df)))"

definition check_phoneme_distribution :: "phoneme_row list \<Rightarrow> outlier_item list" where
  "check_phoneme_distribution phoneme_df =
     foldl (distribution_step phoneme_df) [] (unique (map phoneme phoneme_df))"

section \<open>Word and phoneme consistency\<close>

text \<open>The two shapes of entry that the check appends, told apart by their \<open>issue\<close> key.\<close>

datatype mismatch =
  No_phonemes (mm_file: string) (mm_word: string) (mm_time: real)
| Duration_mismatch (mm_file: string) (mm_word: string) (word_duration: real)
    (phoneme_sum: real) (difference_ms: real) (mm_time: real)

definition phonemes_in_word :: "phoneme_row list \<Rightarrow> word_row \<Rightarrow> phoneme_row list" where
  "phonemes_in_word phoneme_df w =
     filter (\<lambda>r. file_name r = w_file w \<and>
                 start_time r \<ge> w_start_time w - 0.001 \<and>
                 end_time r \<le> w_end_time w + 0.001) phoneme_df"

text \<open>The body of the loop over \<open>self.word_df.iterrows()\<close>.\<close>

definition consistency_step ::
  "phoneme_row list \<Rightarrow> mismatch list \<Rightarrow> word_row \<Rightarrow> mismatch list" where
  "consistency_step phoneme_df mismatches w =
     (let in_word = phonemes_in_word phoneme_df w
      in if length in_word = 0 then
           mismatches @ [No_phonemes (w_file w) (w_word w) (w_start_time w)]
         else
           (let phoneme_duration_sum = sum_list (map duration in_word);
                difference = \<bar>w_duration w - phoneme_duration_sum\<bar>
            in if difference > 0.010 then
                 mismatches @
                 [Duration_mismatch (w_file w) (w_word w) (w_duration w)
                    phoneme_duration_sum (difference * 1000) (w_start_time w)]
               else mismatches))"

definition check_word_phoneme_consistency ::
  "phoneme_row list \<Rightarrow> word_row list \<Rightarrow> mismatch list" where
  "check_word_phoneme_consistency phoneme_df word_df =
     foldl (consistency_step phoneme_df) [] word_df"

section \<open>The quality report\<close>

datatype grade = EXCELLENT | GOOD | FAIR | POOR

text \<open>
  The report dictionary without its timestamp. The counts are the lengths of the lists
  under \<open>details\<close>.
\<close>

record report =
  total_phonemes :: nat
  total_words :: nat
  rp_duration_anomalies :: duration_anomalies
  rp_timing_issues :: timing_issues
  rp_statistical_outliers :: "outlier_item list"
  rp_consistency_issues :: "mismatch list"

text \<open>
  What a run of \<open>generate_quality_report\<close> that reaches its \<open>return\<close> has produced: the
  report it returns and the two values of the printed summary.
\<close>

record quality_summary =
  qs_report :: report
  error_rate :: real
  qs_grade :: grade

definition total_issues :: "report \<Rightarrow> nat" where
  "total_issues r =
     (length (too_short_vowels (rp_duration_anomalies r)) +
      length (too_long_vowels (rp_duration_anomalies r)) +
      length (too_short_consonants (rp_duration_anomalies r)) +
      length (too_long_consonants (rp_duration_anomalies r))) +
     (length (gaps (rp_timing_issues r)) + length (overlaps (rp_timing_issues r))) +
     length (rp_statistical_outliers r) +
     length (rp_consistency_issues r)"

definition grade_of :: "real \<Rightarrow> grade" where
  "grade_of rate =
     (if rate < 5 then EXCELLENT
      else if rate < 10 then GOOD
      else if rate < 20 then FAIR
      else POOR)"

text \<open>\<open>a / b\<close> on two Python integers.\<close>

definition py_truediv :: "nat \<Rightarrow> nat \<Rightarrow> py_error + real" where
  "py_truediv a b = (if b = 0 then Inl ZeroDivisionError else Inr (real a / real b))"

definition generate_quality_report ::
  "sort_values \<Rightarrow> phoneme_row list \<Rightarrow> word_row list \<Rightarrow> py_error + quality_summary" where
  "generate_quality_report srt phoneme_df word_df =
     (let duration_anomalies = check_duration_anomalies phoneme_df;
          timing = check_timing_gaps srt phoneme_df;
          statistical_outliers = check_phoneme_distribution phoneme_df;
          consistency_issues = check_word_phoneme_consistency phoneme_df word_df;
          rep = \<lparr>total_phonemes = length phoneme_df, total_words = length word_df,
                 rp_duration_anomalies = duration_anomalies, rp_timing_issues = timing,
                 rp_statistical_outliers = statistical_outliers,
                 rp_consistency_issues = consistency_issues\<rparr>
      in case py_truediv (total_issues rep) (length phoneme_df) of
           Inl e \<Rightarrow> Inl e
         | Inr q \<Rightarrow>
             Inr \<lparr>qs_report = rep, error_rate = q * 100, qs_grade = grade_of (q * 100)\<rparr>)"

section \<open>The formant sampler\<close>

text \<open>
  A value that Praat hands back for one formant track at one time: a number, or NaN where
  the track is undefined.
\<close>

datatype pyfloat = NaN | Float real

text \<open>
  The formant object computed from the sound by the signal-processing engine, seen through
  the one query the sampler makes: \<open>call(formant, "Get value at time", k, t, ...)\<close> for
  track \<open>k\<close> at time \<open>t\<close>. \<open>None\<close> stands for a call that raises.
\<close>

type_synonym formant = "nat \<Rightarrow> real \<Rightarrow> pyfloat option"

text \<open>The values of a result dictionary: a number or Python's \<open>None\<close>.\<close>

datatype pyval = PyNone | PyNum real

text \<open>
  \<open>if f and not np.isnan(f): values.append(f)\<close>. NaN is truthy and then rejected by
  \<open>isnan\<close>; the number zero is falsy and rejected by the first test.
\<close>

fun append_valid :: "real list \<Rightarrow> pyfloat \<Rightarrow> real list" where
  "append_valid vs NaN = vs"
| "append_valid vs (Float x) = (if x \<noteq> 0 then vs @ [x] else vs)"

text \<open>
  \<open>np.linspace(start, stop, num)\<close>: \<open>num\<close> evenly spaced points, both ends included;
  a single point is \<open>start\<close>.
\<close>

definition linspace :: "real \<Rightarrow> real \<Rightarrow> nat \<Rightarrow> real list" where
  "linspace a b num =
     (if num = 1 then [a]
      else map (\<lambda>i. a + real i * ((b - a) / real (num - 1))) [0..<num])"

text \<open>\<open>np.mean\<close> and \<open>np.std\<close> of a non-empty list; \<open>np.std\<close> divides by \<open>n\<close>.\<close>

definition np_mean :: "real list \<Rightarrow> real" where
  "np_mean xs = sum_list xs / real (length xs)"

definition np_std :: "real list \<Rightarrow> real" where
  "np_std xs = sqrt (sum_list (map (\<lambda>x. (x - np_mean xs)\<^sup>2) xs) / real (length xs))"

text \<open>
  The body of the loop over the measurement times. The three queries stand in one
  \<open>try\<close> block before any \<open>append\<close>: if one of them raises, the time is skipped for all
  three tracks.
\<close>

definition formant_step ::
  "formant \<Rightarrow> real list \<times> real list \<times> real list \<Rightarrow> real \<Rightarrow> real list \<times> real list \<times> real list" where
  "formant_step fm acc t =
     (case fm 1 t of
        None \<Rightarrow> acc
      | Some f1 \<Rightarrow>
          (case fm 2 t of
             None \<Rightarrow> acc
           | Some f2 \<Rightarrow>
               (case fm 3 t of
                  None \<Rightarrow> acc
                | Some f3 \<Rightarrow>
                    (append_valid (fst acc) f1,
                     append_valid (fst (snd acc)) f2,
                     append_valid (snd (snd acc)) f3))))"

definition formant_values ::
  "formant \<Rightarrow> real list \<Rightarrow> real list \<times> real list \<times> real list" where
  "formant_values fm ts = foldl (formant_step fm) ([], [], []) ts"

definition extract_formants ::
  "formant \<Rightarrow> real \<Rightarrow> real \<Rightarrow> nat \<Rightarrow> (string \<times> pyval) list option" where
  "extract_formants fm t_start t_end num_points =
     (let dur = t_end - t_start
      in if dur < 0.03 then None
         else
           (let ts = linspace t_start t_end num_points;
                vals = formant_values fm ts;
                f1_values = fst vals;
                f2_values = fst (snd vals);
                f3_values = snd (snd vals)
            in if f1_values = [] then None
               else Some
                 [(''f1_mean'', PyNum (np_mean f1_values)),
                  (''f1_std'', PyNum (if length f1_values > 1 then np_std f1_values else 0)),
                  (''f2_mean'', if f2_values \<noteq> [] then PyNum (np_mean f2_values) else PyNone),
                  (''f2_std'', PyNum (if length f2_values > 1 then np_std f2_values else 0)),
                  (''f3_mean'', if f3_values \<noteq> [] then PyNum (np_mean f3_values) else PyNone),
                  (''f3_std'', PyNum (if length f3_values > 1 then np_std f3_values else 0))]))"

section \<open>Tier selection\<close>

text \<open>\<open>str.lower()\<close> on the ASCII letters; every other character is left as it is.\<close>

definition lower_char :: "char \<Rightarrow> char" where
  "lower_char c =
     (let n = (of_char c :: nat)
      in if 65 \<le> n \<and> n \<le> 90 then char_of (n + 32) else c)"

definition lower :: "string \<Rightarrow> string" where
  "lower s = map lower_char s"

fun is_prefix :: "'a list \<Rightarrow> 'a list \<Rightarrow> bool" where
  "is_prefix [] ys = True"
| "is_prefix (x # xs) [] = False"
| "is_prefix (x # xs) (y # ys) = (x = y \<and> is_prefix xs ys)"

text \<open>\<open>sub in s\<close> on strings: \<open>sub\<close> occurs in \<open>s\<close> as a contiguous run.\<close>

fun contains :: "'a list \<Rightarrow> 'a list \<Rightarrow> bool" where
  "contains sub [] = (sub = [])"
| "contains sub (y # ys) = (is_prefix sub (y # ys) \<or> contains sub ys)"

record tier_indices =
  word_tier_idx :: "nat option"
  phone_tier_idx :: "nat option"

text \<open>The body of the loop \<open>for i in range(1, n_tiers + 1)\<close> of \<open>analyze_file\<close>.\<close>

definition tier_step :: "tier_indices \<Rightarrow> nat \<times> string \<Rightarrow> tier_indices" where
  "tier_step st it =
     (if contains ''word'' (lower (snd it)) then st\<lparr>word_tier_idx := Some (fst it)\<rparr>
      else if contains ''phone'' (lower (snd it)) then st\<lparr>phone_tier_idx := Some (fst it)\<rparr>
      else st)"

text \<open>Tier \<open>i\<close> of the TextGrid, counted from 1, has the name \<open>tier_names ! (i - 1)\<close>.\<close>

definition find_tiers :: "string list \<Rightarrow> tier_indices" where
  "find_tiers tier_names =
     foldl tier_step \<lparr>word_tier_idx = None, phone_tier_idx = None\<rparr>
       (zip [1..<length tier_names + 1] tier_names)"

section \<open>The outlier check per symbol\<close>

text \<open>
  The entries that one pass of the outer loop of \<open>check_phoneme_distribution\<close> appends
  for the symbol \<open>ph\<close>.
\<close>

definition symbol_outliers :: "phoneme_row list \<Rightarrow> string \<Rightarrow> outlier_item list" where
  "symbol_outliers phoneme_df ph = distribution_step phoneme_df [] ph"

subsection \<open>The outlier check in the words of the specification\<close>

text \<open>
  The specification describes the check with the population standard deviation, the sum
  of squared deviations divided by \<open>n\<close>, and \<open>z = |duration - mean| / std\<close>, zero when
  the deviation is zero. These definitions follow that wording; they are compared with
  the code below.
\<close>

definition population_std :: "real list \<Rightarrow> real" where
  "population_std xs =
     sqrt (sum_list (map (\<lambda>x. (x - series_mean xs)\<^sup>2) xs) / real (length xs))"

definition spec_z_score :: "real \<Rightarrow> real \<Rightarrow> phoneme_row \<Rightarrow> real" where
  "spec_z_score mean std row = (if std = 0 then 0 else \<bar>duration row - mean\<bar> / std)"

definition spec_symbol_outliers :: "phoneme_row list \<Rightarrow> string \<Rightarrow> outlier_item list" where
  "spec_symbol_outliers phoneme_df ph =
     (let rows = filter (\<lambda>r. phoneme r = ph) phoneme_df;
          mean = series_mean (map duration rows);
          std = population_std (map duration rows)
      in if length rows < 3 then []
         else map (\<lambda>r. outlier_entry ph mean (spec_z_score mean std r) r)
                (filter (\<lambda>r. spec_z_score mean std r > 3) rows))"

section \<open>The number of the last matching tier\<close>

text \<open>
  Tier numbers start at 1. \<open>last_match P tier_names\<close> is the number of the last tier
  whose name satisfies \<open>P\<close>, if there is one.
\<close>

definition last_match :: "(string \<Rightarrow> bool) \<Rightarrow> string list \<Rightarrow> nat option" where
  "last_match P tier_names =
     (case filter (\<lambda>it. P (snd it)) (zip [1..<length tier_names + 1] tier_names) of
        [] \<Rightarrow> None
      | m # ms \<Rightarrow> Some (fst (last (m # ms))))"

section \<open>Example tables\<close>

text \<open>
  Eleven occurrences of one vowel in one file: nine of 50ms, one of 70ms, one of 140ms.
\<close>

definition ah0_row :: "real \<Rightarrow> real \<Rightarrow> phoneme_row" where
  "ah0_row s d =
     \<lparr>file_name = ''utt1'', phoneme = ''AH0'', start_time = s, end_time = s + d,
      duration = d, is_vowel = True\<rparr>"

definition outlier_corpus :: "phoneme_row list" where
  "outlier_corpus =
     [ah0_row 0 0.05, ah0_row 1 0.05, ah0_row 2 0.05, ah0_row 3 0.05, ah0_row 4 0.05,
      ah0_row 5 0.05, ah0_row 6 0.05, ah0_row 7 0.05, ah0_row 8 0.05, ah0_row 9 0.07,
      ah0_row 10 0.14]"

text \<open>
  A row whose duration is the difference of its boundaries, as \<open>analyze_phoneme\<close>
  computes it.
\<close>

definition segment :: "string \<Rightarrow> string \<Rightarrow> real \<Rightarrow> real \<Rightarrow> bool \<Rightarrow> phoneme_row" where
  "segment f p s e v =
     \<lparr>file_name = f, phoneme = p, start_time = s, end_time = e, duration = e - s,
      is_vowel = v\<rparr>"

text \<open>
  Two tables with the same rows of \<open>AH0\<close>, ten of 50ms and one of 160ms, and
  different rows of \<open>B\<close>.
\<close>

definition flagged_corpus :: "phoneme_row list" where
  "flagged_corpus =
     [ah0_row 0 0.05, ah0_row 1 0.05, ah0_row 2 0.05, ah0_row 3 0.05, ah0_row 4 0.05,
      ah0_row 5 0.05, ah0_row 6 0.05, ah0_row 7 0.05, ah0_row 8 0.05, ah0_row 9 0.05,
      ah0_row 10 0.16, segment ''utt1'' ''B'' 11 11.5 False, segment ''utt1'' ''B'' 12 12.01 False]"

definition other_corpus :: "phoneme_row list" where
  "other_corpus =
     [segment ''utt2'' ''B'' 0 0.3 False,
      ah0_row 0 0.05, ah0_row 1 0.05, ah0_row 2 0.05, ah0_row 3 0.05, ah0_row 4 0.05,
      segment ''utt2'' ''B'' 1 1.2 False,
      ah0_row 5 0.05, ah0_row 6 0.05, ah0_row 7 0.05, ah0_row 8 0.05, ah0_row 9 0.05,
      ah0_row 10 0.16, segment ''utt2'' ''B'' 2 2.1 False]"

text \<open>
  Twenty contiguous consonants of one file: nineteen \<open>T\<close> of 50ms and one \<open>K\<close> of
  10ms.
\<close>

definition t_row :: "real \<Rightarrow> phoneme_row" where
  "t_row s =
     \<lparr>file_name = ''utt1'', phoneme = ''T'', start_time = s, end_time = s + 0.05,
      duration = 0.05, is_vowel = False\<rparr>"

definition k_row :: phoneme_row where
  "k_row =
     \<lparr>file_name = ''utt1'', phoneme = ''K'', start_time = 0.95, end_time = 0.96,
      duration = 0.01, is_vowel = False\<rparr>"

definition t_rows :: "phoneme_row list" where
  "t_rows = map t_row
     [0, 0.05, 0.1, 0.15, 0.2, 0.25, 0.3, 0.35, 0.4, 0.45, 0.5, 0.55, 0.6, 0.65, 0.7, 0.75, 0.8, 0.85, 0.9]"

definition boundary_corpus :: "phoneme_row list" where
  "boundary_corpus = t_rows @ [k_row]"

text \<open>
  The word \<open>hello\<close> over \<open>[1.000, 1.500]\<close> with phonemes that sum to 495ms, and with
  phonemes that sum to 480ms. Both tables also hold a row that leaves the word's window
  and a row of another file.
\<close>

definition hello_word :: word_row where
  "hello_word =
     \<lparr>w_file = ''utt1'', w_word = ''hello'', w_start_time = 1.000, w_end_time = 1.500,
      w_duration = 0.500\<rparr>"

definition hello_close :: "phoneme_row list" where
  "hello_close =
     [segment ''utt1'' ''HH'' 1.000 1.200 False,
      segment ''utt1'' ''OW1'' 1.200 1.495 True,
      segment ''utt1'' ''W'' 1.500 1.600 False,
      segment ''utt2'' ''HH'' 1.000 1.200 False]"

definition hello_short :: "phoneme_row list" where
  "hello_short =
     [segment ''utt1'' ''HH'' 1.000 1.200 False,
      segment ''utt1'' ''OW1'' 1.200 1.480 True,
      segment ''utt1'' ''W'' 1.500 1.600 False,
      segment ''utt2'' ''HH'' 1.000 1.200 False]"

text \<open>
  Vowels of 15ms, 35ms and 450ms, and a silence of 10ms.
\<close>

definition ae1_table :: "phoneme_row list" where
  "ae1_table =
     [segment ''utt1'' ''AE1'' 0 0.015 True,
      segment ''utt1'' ''AE1'' 0.015 0.050 True,
      segment ''utt1'' ''AE1'' 0.050 0.500 True,
      segment ''utt1'' ''sil'' 0.500 0.510 False]"

text \<open>
  Rows of two files out of order: in \<open>utt1\<close> a gap of 50ms, an overlap of 10ms and a
  gap of half a millisecond.
\<close>

definition timing_table :: "phoneme_row list" where
  "timing_table =
     [segment ''utt1'' ''B'' 0.150 0.200 False,
      segment ''utt2'' ''A'' 0 0.100 False,
      segment ''utt1'' ''A'' 0 0.100 False,
      segment ''utt1'' ''D'' 0.3005 0.400 False,
      segment ''utt1'' ''C'' 0.190 0.300 False]"

text \<open>
  A formant object of frames that hold a single formant: the first track is 500 Hz at
  every time, the second and the third track are undefined.
\<close>

definition single_formant :: formant where
  "single_formant k t = (if k = 1 then Some (Float 500) else Some NaN)"

text \<open>
  Five tier names: two word tiers and two phone tiers in mixed case, and one other tier.
\<close>

definition example_tiers :: "string list" where
  "example_tiers = [''Speaker - words'', ''speaker - PHONES'', ''Words'', ''notes'', ''phones'']"

section \<open>Properties of the duration check\<close>

lemma duration_fold_short_vowels:
  "too_short_vowels (foldl duration_step a df) =
     too_short_vowels a @ map duration_entry (filter (\<lambda>r. is_vowel r \<and> duration r < 0.030) df)"
  by (induction df arbitrary: a) (simp_all add: duration_step_def vowel_min_def)

lemma duration_fold_long_vowels:
  "too_long_vowels (foldl duration_step a df) =
     too_long_vowels a @ map duration_entry (filter (\<lambda>r. is_vowel r \<and> duration r > 0.400) df)"
  by (induction df arbitrary: a) (simp_all add: duration_step_def vowel_min_def vowel_max_def)

lemma duration_fold_short_consonants:
  "too_short_consonants (foldl duration_step a df) =
     too_short_consonants a @
     map duration_entry (filter (\<lambda>r. \<not> is_vowel r \<and> duration r < 0.020) df)"
  by (induction df arbitrary: a) (simp_all add: duration_step_def consonant_min_def)

lemma duration_fold_long_consonants:
  "too_long_consonants (foldl duration_step a df) =
     too_long_consonants a @
     map duration_entry (filter (\<lambda>r. \<not> is_vowel r \<and> duration r > 0.250) df)"
  by (induction df arbitrary: a)
     (simp_all add: duration_step_def consonant_min_def consonant_max_def)

text \<open>
  Claim C7. Over the whole phoneme table, the four anomaly lists are exactly: the vowels
  shorter than 30ms, the vowels longer than 400ms, the non-vowels shorter than 20ms and
  the non-vowels longer than 250ms, each in table order. A duration at a boundary or
  inside the range of its class is in none of the lists, and every row that is not a vowel
  (silence included) is held to the consonant thresholds.
\<close>

theorem check_duration_anomalies_thresholds:
  "too_short_vowels (check_duration_anomalies df) =
     map duration_entry (filter (\<lambda>r. is_vowel r \<and> duration r < 0.030) df) \<and>
   too_long_vowels (check_duration_anomalies df) =
     map duration_entry (filter (\<lambda>r. is_vowel r \<and> duration r > 0.400) df) \<and>
   too_short_consonants (check_duration_anomalies df) =
     map duration_entry (filter (\<lambda>r. \<not> is_vowel r \<and> duration r < 0.020) df) \<and>
   too_long_consonants (check_duration_anomalies df) =
     map duration_entry (filter (\<lambda>r. \<not> is_vowel r \<and> duration r > 0.250) df)"
  unfolding check_duration_anomalies_def
  by (simp add: duration_fold_short_vowels duration_fold_long_vowels
        duration_fold_short_consonants duration_fold_long_consonants
        no_duration_anomalies_def)

text \<open>
  On the example table the vowel of 15ms is too short, the vowel of 450ms too long, the
  vowel of 35ms is not flagged, and the silence is flagged as a short consonant.
\<close>

theorem check_duration_anomalies_thresholds_witness:
  "too_short_vowels (check_duration_anomalies ae1_table) =
     [\<lparr>di_file = ''utt1'', di_phoneme = ''AE1'', di_duration = 0.015, di_start = 0,
       di_end = 0.015\<rparr>] \<and>
   too_long_vowels (check_duration_anomalies ae1_table) =
     [\<lparr>di_file = ''utt1'', di_phoneme = ''AE1'', di_duration = 0.45, di_start = 0.05,
       di_end = 0.5\<rparr>] \<and>
   too_short_consonants (check_duration_anomalies ae1_table) =
     [\<lparr>di_file = ''utt1'', di_phoneme = ''sil'', di_duration = 0.01, di_start = 0.5,
       di_end = 0.51\<rparr>] \<and>
   too_long_consonants (check_duration_anomalies ae1_table) = []"
  using check_duration_anomalies_thresholds [of ae1_table]
  by (simp add: ae1_table_def segment_def duration_entry_def)

section \<open>Properties of the timing check\<close>

lemma timing_fold_gaps:
  "gaps (foldl (timing_step f) st ps) =
     gaps st @ map (gap_entry f)
       (filter (\<lambda>pr. start_time (snd pr) - end_time (fst pr) > 0.001) ps)"
  by (induction ps arbitrary: st) (simp_all add: timing_step_def Let_def)

lemma timing_fold_overlaps:
  "overlaps (foldl (timing_step f) st ps) =
     overlaps st @ map (overlap_entry f)
       (filter (\<lambda>pr. start_time (snd pr) - end_time (fst pr) < - 0.001) ps)"
  by (induction ps arbitrary: st) (simp_all add: timing_step_def Let_def)

lemma timing_files_gaps:
  "gaps (foldl (timing_file srt df) st fs) =
     gaps st @ concat (map (\<lambda>f. map (gap_entry f)
       (filter (\<lambda>pr. start_time (snd pr) - end_time (fst pr) > 0.001)
          (consecutive (file_phonemes srt df f)))) fs)"
  by (induction fs arbitrary: st) (simp_all add: timing_file_def timing_fold_gaps)

lemma timing_files_overlaps:
  "overlaps (foldl (timing_file srt df) st fs) =
     overlaps st @ concat (map (\<lambda>f. map (overlap_entry f)
       (filter (\<lambda>pr. start_time (snd pr) - end_time (fst pr) < - 0.001)
          (consecutive (file_phonemes srt df f)))) fs)"
  by (induction fs arbitrary: st) (simp_all add: timing_file_def timing_fold_overlaps)

text \<open>The pairs that the loop visits are all the pairs of neighbours, by position.\<close>

lemma consecutive_nth:
  "consecutive xs = map (\<lambda>i. (xs ! i, xs ! Suc i)) [0..<length xs - 1]"
proof (rule nth_equalityI)
  show "length (consecutive xs) = length (map (\<lambda>i. (xs ! i, xs ! Suc i)) [0..<length xs - 1])"
    by (simp add: consecutive_def)
next
  fix i
  assume "i < length (consecutive xs)"
  then have i: "i < length xs - 1"
    by (simp add: consecutive_def)
  then have "consecutive xs ! i = (xs ! i, xs ! Suc i)"
    by (simp add: consecutive_def nth_tl)
  with i show "consecutive xs ! i = map (\<lambda>i. (xs ! i, xs ! Suc i)) [0..<length xs - 1] ! i"
    by simp
qed

lemma gap_entries_nth:
  "map (gap_entry f)
     (filter (\<lambda>pr. start_time (snd pr) - end_time (fst pr) > 0.001) (consecutive xs)) =
   map (\<lambda>i. \<lparr>g_file = f, after_phoneme = phoneme (xs ! i),
                 before_phoneme = phoneme (xs ! Suc i),
                 gap_ms = (start_time (xs ! Suc i) - end_time (xs ! i)) * 1000,
                 g_time = end_time (xs ! i)\<rparr>)
     (filter (\<lambda>i. start_time (xs ! Suc i) - end_time (xs ! i) > 0.001) [0..<length xs - 1])"
  unfolding consecutive_nth by (simp add: filter_map comp_def gap_entry_def)

lemma overlap_entries_nth:
  "map (overlap_entry f)
     (filter (\<lambda>pr. start_time (snd pr) - end_time (fst pr) < - 0.001) (consecutive xs)) =
   map (\<lambda>i. \<lparr>o_file = f, phoneme1 = phoneme (xs ! i), phoneme2 = phoneme (xs ! Suc i),
                 overlap_ms = \<bar>start_time (xs ! Suc i) - end_time (xs ! i)\<bar> * 1000,
                 o_time = end_time (xs ! i)\<rparr>)
     (filter (\<lambda>i. start_time (xs ! Suc i) - end_time (xs ! i) < - 0.001) [0..<length xs - 1])"
  unfolding consecutive_nth by (simp add: filter_map comp_def overlap_entry_def)

lemma unique_set: "set (unique xs) = set xs"
  by (induction xs rule: unique.induct) auto

lemma unique_distinct: "distinct (unique xs)"
  by (induction xs rule: unique.induct) (auto simp add: unique_set)

lemma file_phonemes_sorted:
  assumes "sorts_by_start srt"
  shows "mset (file_phonemes srt df f) = mset (filter (\<lambda>r. file_name r = f) df) \<and>
         sorted (map start_time (file_phonemes srt df f))"
  using assms by (simp add: sorts_by_start_def file_phonemes_def)

lemma sort_key_sorts_by_start: "sorts_by_start (sort_key start_time)"
  by (simp add: sorts_by_start_def)

lemma timing_step_outcome:
  "(let g = start_time (snd pr) - end_time (fst pr);
        out = timing_step f \<lparr>gaps = [], overlaps = []\<rparr> pr
    in (g > 0.001 \<longleftrightarrow> gaps out = [gap_entry f pr]) \<and>
       (g < - 0.001 \<longleftrightarrow> overlaps out = [overlap_entry f pr]) \<and>
       (\<bar>g\<bar> \<le> 0.001 \<longleftrightarrow> gaps out = [] \<and> overlaps out = []) \<and>
       length (gaps out) + length (overlaps out) \<le> 1)"
proof -
  define g where "g = start_time (snd pr) - end_time (fst pr)"
  consider "g > 0.001" | "g < - 0.001" | "\<bar>g\<bar> \<le> 0.001"
    by linarith
  then have "(g > 0.001 \<longleftrightarrow>
         gaps (timing_step f \<lparr>gaps = [], overlaps = []\<rparr> pr) = [gap_entry f pr]) \<and>
     (g < - 0.001 \<longleftrightarrow>
         overlaps (timing_step f \<lparr>gaps = [], overlaps = []\<rparr> pr) = [overlap_entry f pr]) \<and>
     (\<bar>g\<bar> \<le> 0.001 \<longleftrightarrow> gaps (timing_step f \<lparr>gaps = [], overlaps = []\<rparr> pr) = [] \<and>
        overlaps (timing_step f \<lparr>gaps = [], overlaps = []\<rparr> pr) = []) \<and>
     length (gaps (timing_step f \<lparr>gaps = [], overlaps = []\<rparr> pr)) +
     length (overlaps (timing_step f \<lparr>gaps = [], overlaps = []\<rparr> pr)) \<le> 1"
  proof cases
    case 1
    then show ?thesis unfolding timing_step_def Let_def g_def [symmetric] by simp
  next
    case 2
    then show ?thesis unfolding timing_step_def Let_def g_def [symmetric] by simp
  next
    case 3
    then have "\<not> g > 0.001" "\<not> g < - 0.001" by linarith+
    with 3 show ?thesis unfolding timing_step_def Let_def g_def [symmetric] by simp
  qed
  then show ?thesis unfolding Let_def g_def by blast
qed

text \<open>
  Claim C4. Let the sort return the rows it is given in ascending order of start time,
  in whatever order it leaves ties. Then the check visits every file of the table once,
  and for a file \<open>f\<close> with sorted rows \<open>L\<close> it visits every pair of neighbours
  \<open>(L ! i, L ! (i + 1))\<close>, \<open>i < length L - 1\<close>. With
  \<open>gap = start (L ! (i + 1)) - end (L ! i)\<close>, the gap entries are exactly the pairs with
  \<open>gap > 1ms\<close>, the overlap entries exactly the pairs with \<open>gap < -1ms\<close>, carrying
  \<open>|gap|\<close> in milliseconds, and a pair with \<open>|gap| \<le> 1ms\<close> produces no entry: for
  each pair one loop step emits exactly one of the three outcomes.
\<close>

theorem check_timing_gaps_trichotomy:
  assumes "sorts_by_start srt"
  shows
  "distinct (unique (map file_name df)) \<and>
   set (unique (map file_name df)) = set (map file_name df) \<and>
   (\<forall>f. mset (file_phonemes srt df f) = mset (filter (\<lambda>r. file_name r = f) df) \<and>
        sorted (map start_time (file_phonemes srt df f))) \<and>
   gaps (check_timing_gaps srt df) =
     concat (map (\<lambda>f.
       map (\<lambda>i. \<lparr>g_file = f,
                  after_phoneme = phoneme (file_phonemes srt df f ! i),
                  before_phoneme = phoneme (file_phonemes srt df f ! Suc i),
                  gap_ms = (start_time (file_phonemes srt df f ! Suc i) -
                            end_time (file_phonemes srt df f ! i)) * 1000,
                  g_time = end_time (file_phonemes srt df f ! i)\<rparr>)
         (filter (\<lambda>i. start_time (file_phonemes srt df f ! Suc i) -
                       end_time (file_phonemes srt df f ! i) > 0.001)
            [0..<length (file_phonemes srt df f) - 1]))
       (unique (map file_name df))) \<and>
   overlaps (check_timing_gaps srt df) =
     concat (map (\<lambda>f.
       map (\<lambda>i. \<lparr>o_file = f,
                  phoneme1 = phoneme (file_phonemes srt df f ! i),
                  phoneme2 = phoneme (file_phonemes srt df f ! Suc i),
                  overlap_ms = \<bar>start_time (file_phonemes srt df f ! Suc i) -
                                end_time (file_phonemes srt df f ! i)\<bar> * 1000,
                  o_time = end_time (file_phonemes srt df f ! i)\<rparr>)
         (filter (\<lambda>i. start_time (file_phonemes srt df f ! Suc i) -
                       end_time (file_phonemes srt df f ! i) < - 0.001)
            [0..<length (file_phonemes srt df f) - 1]))
       (unique (map file_name df))) \<and>
   (let g = start_time (snd pr) - end_time (fst pr);
        out = timing_step f \<lparr>gaps = [], overlaps = []\<rparr> pr
    in (g > 0.001 \<longleftrightarrow> gaps out = [gap_entry f pr]) \<and>
       (g < - 0.001 \<longleftrightarrow> overlaps out = [overlap_entry f pr]) \<and>
       (\<bar>g\<bar> \<le> 0.001 \<longleftrightarrow> gaps out = [] \<and> overlaps out = []) \<and>
       length (gaps out) + length (overlaps out) \<le> 1)"
proof -
  have a: "gaps (check_timing_gaps srt df) =
     concat (map (\<lambda>f.
       map (\<lambda>i. \<lparr>g_file = f,
                  after_phoneme = phoneme (file_phonemes srt df f ! i),
                  before_phoneme = phoneme (file_phonemes srt df f ! Suc i),
                  gap_ms = (start_time (file_phonemes srt df f ! Suc i) -
                            end_time (file_phonemes srt df f ! i)) * 1000,
                  g_time = end_time (file_phonemes srt df f ! i)\<rparr>)
         (filter (\<lambda>i. start_time (file_phonemes srt df f ! Suc i) -
                       end_time (file_phonemes srt df f ! i) > 0.001)
            [0..<length (file_phonemes srt df f) - 1]))
       (unique (map file_name df)))"
    unfolding check_timing_gaps_def timing_files_gaps gap_entries_nth by simp
  have b: "overlaps (check_timing_gaps srt df) =
     concat (map (\<lambda>f.
       map (\<lambda>i. \<lparr>o_file = f,
                  phoneme1 = phoneme (file_phonemes srt df f ! i),
                  phoneme2 = phoneme (file_phonemes srt df f ! Suc i),
                  overlap_ms = \<bar>start_time (file_phonemes srt df f ! Suc i) -
                                end_time (file_phonemes srt df f ! i)\<bar> * 1000,
                  o_time = end_time (file_phonemes srt df f ! i)\<rparr>)
         (filter (\<lambda>i. start_time (file_phonemes srt df f ! Suc i) -
                       end_time (file_phonemes srt df f ! i) < - 0.001)
            [0..<length (file_phonemes srt df f) - 1]))
       (unique (map file_name df)))"
    unfolding check_timing_gaps_def timing_files_overlaps overlap_entries_nth by simp
  have c: "\<forall>f. mset (file_phonemes srt df f) = mset (filter (\<lambda>r. file_name r = f) df) \<and>
        sorted (map start_time (file_phonemes srt df f))"
    using file_phonemes_sorted [OF assms] by blast
  have d: "distinct (unique (map file_name df))"
    by (rule unique_distinct)
  have e: "set (unique (map file_name df)) = set (map file_name df)"
    by (rule unique_set)
  from a b c d e timing_step_outcome [of pr f] show ?thesis by blast
qed

text \<open>
  On the example table, with the insertion sort of the library for the sort: the rows of
  \<open>utt1\<close> are put in order; the gap of 50ms and the overlap of 10ms are reported, the gap
  of half a millisecond is not.
\<close>

theorem check_timing_gaps_trichotomy_witness:
  "sorts_by_start (sort_key start_time) \<and>
   gaps (check_timing_gaps (sort_key start_time) timing_table) =
     [\<lparr>g_file = ''utt1'', after_phoneme = ''A'', before_phoneme = ''B'', gap_ms = 50,
       g_time = 0.1\<rparr>] \<and>
   overlaps (check_timing_gaps (sort_key start_time) timing_table) =
     [\<lparr>o_file = ''utt1'', phoneme1 = ''B'', phoneme2 = ''C'', overlap_ms = 10,
       o_time = 0.2\<rparr>]"
proof -
  have u: "unique (map file_name timing_table) = [''utt1'', ''utt2'']"
    by (simp add: timing_table_def segment_def)
  have f1: "file_phonemes (sort_key start_time) timing_table ''utt1'' =
     [segment ''utt1'' ''A'' 0 0.100 False, segment ''utt1'' ''B'' 0.150 0.200 False,
      segment ''utt1'' ''C'' 0.190 0.300 False, segment ''utt1'' ''D'' 0.3005 0.400 False]"
    by (simp add: file_phonemes_def timing_table_def segment_def)
  have f2: "file_phonemes (sort_key start_time) timing_table ''utt2'' =
     [segment ''utt2'' ''A'' 0 0.100 False]"
    by (simp add: file_phonemes_def timing_table_def segment_def)
  have n: "[0..<3] = [0, 1, 2]"
    by (simp add: upt_rec)
  from check_timing_gaps_trichotomy [OF sort_key_sorts_by_start, of timing_table]
  have "gaps (check_timing_gaps (sort_key start_time) timing_table) =
     [\<lparr>g_file = ''utt1'', after_phoneme = ''A'', before_phoneme = ''B'', gap_ms = 50,
       g_time = 0.1\<rparr>] \<and>
   overlaps (check_timing_gaps (sort_key start_time) timing_table) =
     [\<lparr>o_file = ''utt1'', phoneme1 = ''B'', phoneme2 = ''C'', overlap_ms = 10,
       o_time = 0.2\<rparr>]"
    by (simp add: u f1 f2 n segment_def)
  with sort_key_sorts_by_start show ?thesis by simp
qed

section \<open>Properties of the consistency check\<close>

lemma consistency_fold:
  "foldl (consistency_step df) acc ws =
     acc @ concat (map (\<lambda>w. consistency_step df [] w) ws)"
proof (induction ws arbitrary: acc)
  case Nil
  show ?case by simp
next
  case (Cons w ws)
  have "consistency_step df acc w = acc @ consistency_step df [] w"
    by (simp add: consistency_step_def Let_def)
  with Cons show ?case by simp
qed

text \<open>
  Claim C6. For every word the matched phonemes are the rows of the same file with
  \<open>start \<ge> word.start - 1ms\<close> and \<open>end \<le> word.end + 1ms\<close>; without a match the word
  gets a \<open>no_phonemes\<close> entry; otherwise it gets a \<open>duration_mismatch\<close> entry, carrying
  the difference in milliseconds, iff the word's duration and the sum of the matched
  durations differ by more than 10ms.
\<close>

theorem check_word_phoneme_consistency_window:
  "check_word_phoneme_consistency df word_df =
     concat (map (\<lambda>w.
       let matched = filter (\<lambda>r. file_name r = w_file w \<and>
                                  w_start_time w - 0.001 \<le> start_time r \<and>
                                  end_time r \<le> w_end_time w + 0.001) df;
           total = sum_list (map duration matched)
       in if matched = [] then [No_phonemes (w_file w) (w_word w) (w_start_time w)]
          else if \<bar>w_duration w - total\<bar> > 0.010 then
            [Duration_mismatch (w_file w) (w_word w) (w_duration w) total
               (\<bar>w_duration w - total\<bar> * 1000) (w_start_time w)]
          else []) word_df)"
proof -
  have step: "consistency_step df [] w =
       (let matched = filter (\<lambda>r. file_name r = w_file w \<and>
                                  w_start_time w - 0.001 \<le> start_time r \<and>
                                  end_time r \<le> w_end_time w + 0.001) df;
           total = sum_list (map duration matched)
       in if matched = [] then [No_phonemes (w_file w) (w_word w) (w_start_time w)]
          else if \<bar>w_duration w - total\<bar> > 0.010 then
            [Duration_mismatch (w_file w) (w_word w) (w_duration w) total
               (\<bar>w_duration w - total\<bar> * 1000) (w_start_time w)]
          else [])" for w
    by (simp add: consistency_step_def phonemes_in_word_def Let_def)
  show ?thesis
    unfolding check_word_phoneme_consistency_def consistency_fold step by simp
qed

text \<open>
  The examples of the specification: a difference of 5ms is tolerated, a difference of
  20ms is reported with \<open>difference_ms = 20\<close>, and a word without phonemes is reported
  as such.
\<close>

theorem check_word_phoneme_consistency_window_witness:
  "check_word_phoneme_consistency hello_close [hello_word] = [] \<and>
   check_word_phoneme_consistency hello_short [hello_word] =
     [Duration_mismatch ''utt1'' ''hello'' 0.5 0.48 20 1] \<and>
   check_word_phoneme_consistency [] [hello_word] = [No_phonemes ''utt1'' ''hello'' 1]"
  unfolding check_word_phoneme_consistency_window
  by (simp add: hello_word_def hello_close_def hello_short_def segment_def)

section \<open>Properties of the report\<close>

text \<open>
  Claim C2. On a phoneme table without rows the report is not guarded: the division of the
  issue count by the number of phonemes raises \<open>ZeroDivisionError\<close>, whatever the word
  table holds and whatever sort the timing check uses.
\<close>

theorem generate_quality_report_empty_corpus:
  "generate_quality_report srt [] word_df = Inl ZeroDivisionError"
  by (simp add: generate_quality_report_def py_truediv_def Let_def)

text \<open>
  Claim C3. On a phoneme table with at least one row, and for any sort used by the timing
  check, the report is produced, its error
  rate is the sum of the four duration counts, the gap count, the overlap count, the
  outlier count and the mismatch count, divided by the number of phonemes, times 100, and
  the grade is EXCELLENT iff the rate is below 5, GOOD iff it is at least 5 and below 10,
  FAIR iff it is at least 10 and below 20, POOR iff it is at least 20.
\<close>

theorem generate_quality_report_grade:
  assumes "length df > 0"
  shows "\<exists>s. generate_quality_report srt df word_df = Inr s \<and>
     error_rate s =
       real (length (too_short_vowels (check_duration_anomalies df)) +
             length (too_long_vowels (check_duration_anomalies df)) +
             length (too_short_consonants (check_duration_anomalies df)) +
             length (too_long_consonants (check_duration_anomalies df)) +
             length (gaps (check_timing_gaps srt df)) +
             length (overlaps (check_timing_gaps srt df)) +
             length (check_phoneme_distribution df) +
             length (check_word_phoneme_consistency df word_df)) / real (length df) * 100 \<and>
     (qs_grade s = EXCELLENT \<longleftrightarrow> error_rate s < 5) \<and>
     (qs_grade s = GOOD \<longleftrightarrow> 5 \<le> error_rate s \<and> error_rate s < 10) \<and>
     (qs_grade s = FAIR \<longleftrightarrow> 10 \<le> error_rate s \<and> error_rate s < 20) \<and>
     (qs_grade s = POOR \<longleftrightarrow> 20 \<le> error_rate s)"
  using assms
  by (simp add: generate_quality_report_def py_truediv_def Let_def total_issues_def grade_of_def)

section \<open>One entry per record\<close>

lemma duration_step_count:
  "anomaly_count (duration_step a r) \<le> anomaly_count a + 1"
  by (simp add: duration_step_def anomaly_count_def)

lemma duration_fold_count:
  "anomaly_count (foldl duration_step a df) \<le> anomaly_count a + length df"
proof (induction df arbitrary: a)
  case Nil
  show ?case by simp
next
  case (Cons r df)
  have "anomaly_count (foldl duration_step (duration_step a r) df)
          \<le> anomaly_count (duration_step a r) + length df"
    by (rule Cons.IH)
  also have "\<dots> \<le> anomaly_count a + 1 + length df"
    using duration_step_count [of a r] by simp
  finally show ?case by simp
qed

lemma consistency_step_length:
  "length (consistency_step df ms w) \<le> length ms + 1"
  by (simp add: consistency_step_def Let_def)

lemma consistency_fold_length:
  "length (foldl (consistency_step df) ms ws) \<le> length ms + length ws"
proof (induction ws arbitrary: ms)
  case Nil
  show ?case by simp
next
  case (Cons w ws)
  have "length (foldl (consistency_step df) (consistency_step df ms w) ws)
          \<le> length (consistency_step df ms w) + length ws"
    by (rule Cons.IH)
  also have "\<dots> \<le> length ms + 1 + length ws"
    using consistency_step_length [of df ms w] by simp
  finally show ?case by simp
qed

text \<open>
  Claim C10. One phoneme row adds at most one entry to the four duration lists taken
  together, so the duration check emits at most as many entries as there are rows; one
  word adds at most one entry to the mismatch list, so a word flagged \<open>no_phonemes\<close> is
  never flagged \<open>duration_mismatch\<close> as well.
\<close>

theorem anomalies_one_per_record:
  "anomaly_count (duration_step a r) \<le> anomaly_count a + 1 \<and>
   anomaly_count (check_duration_anomalies df) \<le> length df \<and>
   length (consistency_step df ms w) \<le> length ms + 1 \<and>
   length (check_word_phoneme_consistency df word_df) \<le> length word_df"
  using duration_step_count [of a r] duration_fold_count [of no_duration_anomalies df]
    consistency_step_length [of df ms w] consistency_fold_length [of df "[]" word_df]
  by (simp add: check_duration_anomalies_def check_word_phoneme_consistency_def
        anomaly_count_def no_duration_anomalies_def)

section \<open>Properties of the distribution check\<close>

lemma outlier_fold:
  "foldl (outlier_step ph m s) acc rows =
     acc @ map (\<lambda>r. outlier_entry ph m (row_z_score m s r) r)
             (filter (\<lambda>r. row_z_score m s r > 3) rows)"
  by (induction rows arbitrary: acc) (simp_all add: outlier_step_def Let_def)

lemma distribution_step_append:
  "distribution_step df acc ph = acc @ symbol_outliers df ph"
  by (simp add: symbol_outliers_def distribution_step_def Let_def outlier_fold)

lemma distribution_fold:
  "foldl (distribution_step df) acc phs = acc @ concat (map (symbol_outliers df) phs)"
proof (induction phs arbitrary: acc)
  case Nil
  show ?case by simp
next
  case (Cons ph phs)
  show ?case by (simp add: Cons.IH distribution_step_append [of df acc ph])
qed

lemma symbol_outliers_phoneme:
  "e \<in> set (symbol_outliers df ph) \<Longrightarrow> ol_phoneme e = ph"
  by (auto simp add: symbol_outliers_def distribution_step_def Let_def outlier_fold
        outlier_entry_def split: if_splits)

lemma symbol_outliers_absent:
  "ph \<notin> set (map phoneme df) \<Longrightarrow> symbol_outliers df ph = []"
proof -
  assume "ph \<notin> set (map phoneme df)"
  then have "filter (\<lambda>r. phoneme r = ph) df = []"
    by (auto simp add: filter_empty_conv)
  then show ?thesis
    by (simp add: symbol_outliers_def distribution_step_def Let_def)
qed

lemma filter_symbol_keep:
  "filter (\<lambda>e. ol_phoneme e = p) (symbol_outliers df p) = symbol_outliers df p"
  by (simp add: symbol_outliers_phoneme)

lemma filter_symbol_drop:
  "q \<noteq> p \<Longrightarrow> filter (\<lambda>e. ol_phoneme e = p) (symbol_outliers df q) = []"
  by (auto simp add: filter_empty_conv dest: symbol_outliers_phoneme)

lemma filter_concat_symbol:
  "distinct phs \<Longrightarrow>
   filter (\<lambda>e. ol_phoneme e = p) (concat (map (symbol_outliers df) phs)) =
     (if p \<in> set phs then symbol_outliers df p else [])"
proof (induction phs)
  case Nil
  show ?case by simp
next
  case (Cons q phs)
  show ?case
  proof (cases "q = p")
    case True
    with Cons show ?thesis by (simp add: filter_symbol_keep)
  next
    case False
    with Cons show ?thesis by (auto simp add: filter_symbol_drop)
  qed
qed

lemma check_filter_symbol:
  "filter (\<lambda>e. ol_phoneme e = p) (check_phoneme_distribution df) = symbol_outliers df p"
proof -
  have "filter (\<lambda>e. ol_phoneme e = p) (check_phoneme_distribution df) =
        (if p \<in> set (unique (map phoneme df)) then symbol_outliers df p else [])"
    unfolding check_phoneme_distribution_def distribution_fold
    using filter_concat_symbol [OF unique_distinct, of p df "map phoneme df"] by simp
  then show ?thesis
    using symbol_outliers_absent [of p df] by (simp add: unique_set)
qed

lemma symbol_outliers_local:
  assumes eq: "filter (\<lambda>r. phoneme r = p) df1 = filter (\<lambda>r. phoneme r = p) df2"
  shows "symbol_outliers df1 p = symbol_outliers df2 p"
  unfolding symbol_outliers_def distribution_step_def eq by (rule refl)

lemma symbol_outliers_explicit:
  "symbol_outliers df p =
     (let rows = filter (\<lambda>r. phoneme r = p) df;
          n = length rows;
          m = sum_list (map duration rows) / real n;
          sd = sqrt (sum_list (map (\<lambda>r. (duration r - m)\<^sup>2) rows) / real (n - 1));
          z = (\<lambda>r. if sd = 0 then 0 else \<bar>duration r - m\<bar> / sd)
      in if n < 3 then []
         else map (\<lambda>r. \<lparr>ol_file = file_name r, ol_phoneme = p, ol_duration = duration r,
                         mean_duration = m, z_score = z r, ol_time = start_time r\<rparr>)
                (filter (\<lambda>r. z r > 3) rows))"
proof -
  define rows where "rows = filter (\<lambda>r. phoneme r = p) df"
  define m where "m = sum_list (map duration rows) / real (length rows)"
  define v where "v = sum_list (map (\<lambda>r. (duration r - m)\<^sup>2) rows) / real (length rows - 1)"
  have "0 \<le> sum_list (map (\<lambda>r. (duration r - m)\<^sup>2) rows)"
    by (rule sum_list_nonneg) auto
  then have "0 \<le> v"
    by (simp add: v_def)
  have z: "row_z_score m (Some (sqrt v)) r =
             (if sqrt v = 0 then 0 else \<bar>duration r - m\<bar> / sqrt v)" for r
  proof (cases "v = 0")
    case True
    then show ?thesis by (simp add: row_z_score_def)
  next
    case False
    with \<open>0 \<le> v\<close> have "0 < v" by simp
    then have "0 < sqrt v" by simp
    then have "\<bar>(duration r - m) / sqrt v\<bar> = \<bar>duration r - m\<bar> / sqrt v"
      by (simp add: abs_divide)
    with \<open>0 < sqrt v\<close> show ?thesis by (simp add: row_z_score_def)
  qed
  have mean: "series_mean (map duration rows) = m"
    by (simp add: series_mean_def m_def)
  have std: "3 \<le> length rows \<Longrightarrow> series_std (map duration rows) = Some (sqrt v)"
    by (simp add: series_std_def mean v_def comp_def)
  have main: "symbol_outliers df p =
     (if length rows < 3 then []
      else map (\<lambda>r. \<lparr>ol_file = file_name r, ol_phoneme = p, ol_duration = duration r,
                      mean_duration = m,
                      z_score = (if sqrt v = 0 then 0 else \<bar>duration r - m\<bar> / sqrt v),
                      ol_time = start_time r\<rparr>)
             (filter (\<lambda>r. (if sqrt v = 0 then 0 else \<bar>duration r - m\<bar> / sqrt v) > 3) rows))"
  proof (cases "length rows < 3")
    case True
    then show ?thesis
      by (simp add: symbol_outliers_def distribution_step_def Let_def rows_def [symmetric])
  next
    case False
    then have "3 \<le> length rows" by simp
    from std [OF this] False show ?thesis
      unfolding symbol_outliers_def distribution_step_def Let_def rows_def [symmetric]
        outlier_fold mean
      by (simp add: z outlier_entry_def)
  qed
  show ?thesis
    unfolding main Let_def v_def m_def rows_def by (rule refl)
qed

text \<open>
  Claim C1, as the code has it. For every symbol \<open>p\<close>, the outlier entries of \<open>p\<close> are:
  none when \<open>p\<close> occurs fewer than 3 times; otherwise, with the mean \<open>m\<close> of the
  durations of \<open>p\<close> and their sample standard deviation \<open>sd\<close> (the sum of squared
  deviations is divided by \<open>n - 1\<close>), and \<open>z = |duration - m| / sd\<close>, zero when
  \<open>sd = 0\<close>, exactly the occurrences with \<open>z > 3\<close>, in table order, each carrying
  \<open>m\<close> and its \<open>z\<close>.
\<close>

theorem check_phoneme_distribution_sample_std:
  "filter (\<lambda>e. ol_phoneme e = p) (check_phoneme_distribution df) =
     (let rows = filter (\<lambda>r. phoneme r = p) df;
          n = length rows;
          m = sum_list (map duration rows) / real n;
          sd = sqrt (sum_list (map (\<lambda>r. (duration r - m)\<^sup>2) rows) / real (n - 1));
          z = (\<lambda>r. if sd = 0 then 0 else \<bar>duration r - m\<bar> / sd)
      in if n < 3 then []
         else map (\<lambda>r. \<lparr>ol_file = file_name r, ol_phoneme = p, ol_duration = duration r,
                         mean_duration = m, z_score = z r, ol_time = start_time r\<rparr>)
                (filter (\<lambda>r. z r > 3) rows))"
  unfolding check_filter_symbol by (rule symbol_outliers_explicit)

subsection \<open>Evaluating the threshold on a square root\<close>

lemma z_above_three:
  assumes "0 < v"
  shows "(3 < \<bar>a\<bar> / sqrt v) = (9 * v < a\<^sup>2)"
proof -
  from assms have s: "0 < sqrt v" by simp
  have nine: "sqrt 9 = 3"
    using real_sqrt_abs [of 3] by simp
  have "(3 < \<bar>a\<bar> / sqrt v) = (3 * sqrt v < \<bar>a\<bar>)"
    using s by (simp add: pos_less_divide_eq)
  also have "\<dots> = (sqrt (9 * v) < sqrt (a\<^sup>2))"
    by (simp add: real_sqrt_mult nine)
  also have "\<dots> = (9 * v < a\<^sup>2)"
    by (rule real_sqrt_less_iff)
  finally show ?thesis .
qed

lemma row_z_score_above_three:
  assumes "0 < v"
  shows "(3 < row_z_score m (Some (sqrt v)) r) = (9 * v < (duration r - m)\<^sup>2)"
proof -
  from assms have "0 < sqrt v" by simp
  then have "row_z_score m (Some (sqrt v)) r = \<bar>duration r - m\<bar> / sqrt v"
    by (simp add: row_z_score_def abs_divide)
  then show ?thesis
    using z_above_three [OF assms, of "duration r - m"] by simp
qed

lemma spec_z_score_above_three:
  assumes "0 < v"
  shows "(3 < spec_z_score m (sqrt v) r) = (9 * v < (duration r - m)\<^sup>2)"
  using assms z_above_three [OF assms, of "duration r - m"] by (simp add: spec_z_score_def)

subsection \<open>The population deviation flags a row that the code does not flag\<close>

lemma outlier_corpus_rows:
  "filter (\<lambda>r. phoneme r = ''AH0'') outlier_corpus = outlier_corpus"
  by (simp add: outlier_corpus_def ah0_row_def)

lemma outlier_corpus_durations:
  "map duration outlier_corpus =
     [0.05, 0.05, 0.05, 0.05, 0.05, 0.05, 0.05, 0.05, 0.05, 0.07, 0.14]"
  by (simp add: outlier_corpus_def ah0_row_def)

lemma outlier_corpus_mean: "series_mean (map duration outlier_corpus) = 0.06"
  unfolding outlier_corpus_durations by (simp add: series_mean_def)

lemma outlier_corpus_std:
  "series_std (map duration outlier_corpus) = Some (sqrt (37 / 50000))"
  unfolding outlier_corpus_durations
  by (simp add: series_std_def series_mean_def power2_eq_square)

lemma outlier_corpus_population_std:
  "population_std (map duration outlier_corpus) = sqrt (37 / 55000)"
  unfolding outlier_corpus_durations
  by (simp add: population_std_def series_mean_def power2_eq_square)

lemma outlier_corpus_unique: "unique (map phoneme outlier_corpus) = [''AH0'']"
  by (simp add: outlier_corpus_def ah0_row_def)

lemma outlier_corpus_length: "length outlier_corpus = 11"
  by (simp add: outlier_corpus_def)

lemma outlier_corpus_code: "check_phoneme_distribution outlier_corpus = []"
proof -
  have "filter (\<lambda>r. 3 < row_z_score 0.06 (Some (sqrt (37 / 50000))) r) outlier_corpus = []"
    by (simp add: row_z_score_above_three outlier_corpus_def ah0_row_def power2_eq_square)
  then show ?thesis
    unfolding check_phoneme_distribution_def outlier_corpus_unique
    by (simp add: distribution_step_def outlier_corpus_rows outlier_corpus_mean
          outlier_corpus_std outlier_fold outlier_corpus_length)
qed

lemma outlier_corpus_spec:
  "map ol_duration (spec_symbol_outliers outlier_corpus ''AH0'') = [0.14]"
proof -
  have "filter (\<lambda>r. 3 < spec_z_score 0.06 (sqrt (37 / 55000)) r) outlier_corpus =
        [ah0_row 10 0.14]"
    by (simp add: spec_z_score_above_three outlier_corpus_def ah0_row_def power2_eq_square)
  then show ?thesis
    unfolding spec_symbol_outliers_def Let_def outlier_corpus_rows outlier_corpus_mean
      outlier_corpus_population_std
    by (simp add: outlier_corpus_length ah0_row_def outlier_entry_def)
qed

text \<open>
  On the table of eleven vowels the mean is 60ms. With the population deviation the row of
  140ms has \<open>z\<close> about 3.08 and is an outlier; the code divides by \<open>n - 1\<close>, finds
  \<open>z\<close> about 2.94 and reports nothing.
\<close>

theorem population_std_counterexample:
  "check_phoneme_distribution outlier_corpus = [] \<and>
   map ol_duration (spec_symbol_outliers outlier_corpus ''AH0'') = [0.14]"
  using outlier_corpus_code outlier_corpus_spec by simp

subsection \<open>A row that the code flags\<close>

lemma flagged_rows:
  "filter (\<lambda>r. phoneme r = ''AH0'') flagged_corpus =
     [ah0_row 0 0.05, ah0_row 1 0.05, ah0_row 2 0.05, ah0_row 3 0.05, ah0_row 4 0.05,
      ah0_row 5 0.05, ah0_row 6 0.05, ah0_row 7 0.05, ah0_row 8 0.05, ah0_row 9 0.05,
      ah0_row 10 0.16]"
  by (simp add: flagged_corpus_def ah0_row_def segment_def)

text \<open>
  Ten occurrences of 50ms and one of 160ms: the sample deviation gives the long row
  \<open>z\<close> about 3.02 and it is reported; the symbol with two occurrences yields nothing.
\<close>

theorem check_phoneme_distribution_sample_std_witness:
  "map ol_duration
     (filter (\<lambda>e. ol_phoneme e = ''AH0'') (check_phoneme_distribution flagged_corpus)) =
     [0.16] \<and>
   filter (\<lambda>e. ol_phoneme e = ''B'') (check_phoneme_distribution flagged_corpus) = []"
proof -
  have s1: "3 < 1 / (10 * sqrt (11 / 10000))"
    using z_above_three [of "11 / 10000" "1 / 10"] by (simp add: power2_eq_square)
  have s2: "\<not> 3 < 1 / (100 * sqrt (11 / 10000))"
    using z_above_three [of "11 / 10000" "1 / 100"] by (simp add: power2_eq_square)
  have a: "map ol_duration
     (filter (\<lambda>e. ol_phoneme e = ''AH0'') (check_phoneme_distribution flagged_corpus)) =
     [0.16]"
    unfolding check_phoneme_distribution_sample_std [of "''AH0''" flagged_corpus] flagged_rows
      Let_def
    using s1 s2 by (simp add: ah0_row_def power2_eq_square)
  have b: "filter (\<lambda>e. ol_phoneme e = ''B'') (check_phoneme_distribution flagged_corpus) = []"
    unfolding check_phoneme_distribution_sample_std [of "''B''" flagged_corpus] Let_def
    by (simp add: flagged_corpus_def ah0_row_def segment_def)
  from a b show ?thesis by simp
qed

text \<open>
  Claim C9. If two tables hold the same rows of symbol \<open>a\<close>, in the same order, then
  the z-scores computed for the occurrences of \<open>a\<close> and the outlier entries of \<open>a\<close>
  are the same in both runs, whatever the rows of the other symbols are.
\<close>

theorem outliers_symbol_local:
  assumes "filter (\<lambda>r. phoneme r = a) df1 = filter (\<lambda>r. phoneme r = a) df2"
  shows "filter (\<lambda>e. ol_phoneme e = a) (check_phoneme_distribution df1) =
         filter (\<lambda>e. ol_phoneme e = a) (check_phoneme_distribution df2) \<and>
         map (row_z_score
                (series_mean (map duration (filter (\<lambda>r. phoneme r = a) df1)))
                (series_std (map duration (filter (\<lambda>r. phoneme r = a) df1))))
             (filter (\<lambda>r. phoneme r = a) df1) =
         map (row_z_score
                (series_mean (map duration (filter (\<lambda>r. phoneme r = a) df2)))
                (series_std (map duration (filter (\<lambda>r. phoneme r = a) df2))))
             (filter (\<lambda>r. phoneme r = a) df2)"
  using assms symbol_outliers_local [OF assms] by (simp add: check_filter_symbol)

text \<open>
  The two example tables agree on \<open>AH0\<close> and differ in every row of \<open>B\<close>.
\<close>

theorem outliers_symbol_local_witness:
  "filter (\<lambda>r. phoneme r = ''AH0'') flagged_corpus =
     filter (\<lambda>r. phoneme r = ''AH0'') other_corpus \<and>
   filter (\<lambda>e. ol_phoneme e = ''AH0'') (check_phoneme_distribution flagged_corpus) =
     filter (\<lambda>e. ol_phoneme e = ''AH0'') (check_phoneme_distribution other_corpus)"
proof -
  have h: "filter (\<lambda>r. phoneme r = ''AH0'') flagged_corpus =
           filter (\<lambda>r. phoneme r = ''AH0'') other_corpus"
    by (simp add: flagged_corpus_def other_corpus_def ah0_row_def segment_def)
  from outliers_symbol_local [OF h] h show ?thesis by blast
qed

section \<open>Properties of the formant sampler\<close>

text \<open>
  What the sampler returns, case by case. It returns no result exactly when the window is
  shorter than 30ms or the first track has no valid sample. A returned result holds all
  six keys. The mean and the deviation of the first track are numbers. For the second and
  the third track, the mean is \<open>None\<close> exactly when all samples of the track were
  rejected, and the deviation is a number in every case: it is 0 when the track has at
  most one valid sample.
\<close>

lemma extract_formants_cases:
  "(extract_formants fm t_start t_end n = None \<longleftrightarrow>
      t_end - t_start < 0.03 \<or> fst (formant_values fm (linspace t_start t_end n)) = []) \<and>
   (extract_formants fm t_start t_end n = Some r \<longrightarrow>
      map fst r = [''f1_mean'', ''f1_std'', ''f2_mean'', ''f2_std'', ''f3_mean'', ''f3_std''] \<and>
      (\<exists>m. map_of r ''f1_mean'' = Some (PyNum m)) \<and>
      (\<exists>d. map_of r ''f1_std'' = Some (PyNum d)) \<and>
      (\<exists>d. map_of r ''f2_std'' = Some (PyNum d)) \<and>
      (\<exists>d. map_of r ''f3_std'' = Some (PyNum d)) \<and>
      (map_of r ''f2_mean'' = Some PyNone \<longleftrightarrow>
         fst (snd (formant_values fm (linspace t_start t_end n))) = []) \<and>
      (map_of r ''f3_mean'' = Some PyNone \<longleftrightarrow>
         snd (snd (formant_values fm (linspace t_start t_end n))) = []) \<and>
      (length (fst (snd (formant_values fm (linspace t_start t_end n)))) \<le> 1 \<longrightarrow>
         map_of r ''f2_std'' = Some (PyNum 0)) \<and>
      (length (snd (snd (formant_values fm (linspace t_start t_end n)))) \<le> 1 \<longrightarrow>
         map_of r ''f3_std'' = Some (PyNum 0)))"
  by (auto simp add: extract_formants_def Let_def)

lemma linspace_three: "linspace a b 3 = [a, a + (b - a) / 2, b]"
proof -
  have "[0..<3] = [0, 1, 2]" by (simp add: upt_rec)
  then show ?thesis by (simp add: linspace_def field_simps)
qed

lemma single_formant_values:
  "formant_values single_formant (linspace 0 0.09 3) = ([500, 500, 500], [], [])"
  by (simp add: linspace_three formant_values_def formant_step_def single_formant_def)

lemma single_formant_result:
  "extract_formants single_formant 0 0.09 3 =
     Some [(''f1_mean'', PyNum 500), (''f1_std'', PyNum 0),
           (''f2_mean'', PyNone), (''f2_std'', PyNum 0),
           (''f3_mean'', PyNone), (''f3_std'', PyNum 0)]"
  unfolding extract_formants_def Let_def single_formant_values
  by (simp add: np_mean_def np_std_def)

lemma single_formant_short: "extract_formants single_formant 0 0.02 3 = None"
  by (simp add: extract_formants_def)

text \<open>
  Claim C5. The sampler is to omit the mean and the deviation of a track whose samples
  were all rejected. The code does so for the mean only. On a window of 90ms over frames
  that hold one formant, all three samples of the second and of the third track are
  rejected; the result has \<open>None\<close> for \<open>f2_mean\<close> and \<open>f3_mean\<close>, and the number 0 for
  \<open>f2_std\<close> and \<open>f3_std\<close>: the deviation is reported as zero, not omitted.
\<close>

theorem extract_formants_empty_track_std:
  "formant_values single_formant (linspace 0 0.09 3) = ([500, 500, 500], [], []) \<and>
   extract_formants single_formant 0 0.09 3 =
     Some [(''f1_mean'', PyNum 500), (''f1_std'', PyNum 0),
           (''f2_mean'', PyNone), (''f2_std'', PyNum 0),
           (''f3_mean'', PyNone), (''f3_std'', PyNum 0)]"
  using single_formant_values single_formant_result by simp

section \<open>Properties of tier selection\<close>

lemma tier_step_word:
  "word_tier_idx (tier_step st it) =
     (if contains ''word'' (lower (snd it)) then Some (fst it) else word_tier_idx st)"
  by (simp add: tier_step_def)

lemma tier_step_phone:
  "phone_tier_idx (tier_step st it) =
     (if contains ''phone'' (lower (snd it)) \<and> \<not> contains ''word'' (lower (snd it))
      then Some (fst it) else phone_tier_idx st)"
  by (simp add: tier_step_def)

lemma tier_fold_word:
  "word_tier_idx (foldl tier_step st its) =
     (case filter (\<lambda>it. contains ''word'' (lower (snd it))) its of
        [] \<Rightarrow> word_tier_idx st
      | m # ms \<Rightarrow> Some (fst (last (m # ms))))"
proof (induction its arbitrary: st)
  case Nil
  show ?case by simp
next
  case (Cons it its)
  show ?case
    by (simp add: Cons.IH tier_step_word tier_step_phone split: list.splits)
qed

lemma tier_fold_phone:
  "phone_tier_idx (foldl tier_step st its) =
     (case filter (\<lambda>it. contains ''phone'' (lower (snd it)) \<and>
                         \<not> contains ''word'' (lower (snd it))) its of
        [] \<Rightarrow> phone_tier_idx st
      | m # ms \<Rightarrow> Some (fst (last (m # ms))))"
proof (induction its arbitrary: st)
  case Nil
  show ?case by simp
next
  case (Cons it its)
  show ?case
    by (simp add: Cons.IH tier_step_word tier_step_phone split: list.splits)
qed

lemma last_match_Nil: "last_match P [] = None"
  by (simp add: last_match_def)

lemma case_snoc_last:
  "(case ys @ [y] of [] \<Rightarrow> None | m # ms \<Rightarrow> Some (fst (last (m # ms)))) = Some (fst y)"
  by (cases ys) simp_all

lemma last_match_snoc:
  "last_match P (xs @ [x]) = (if P x then Some (Suc (length xs)) else last_match P xs)"
proof -
  have z: "zip [1..<length (xs @ [x]) + 1] (xs @ [x]) =
        zip [1..<length xs + 1] xs @ [(Suc (length xs), x)]"
    by (simp add: zip_append2 del: upt_Suc) (simp add: upt_Suc_append)
  show ?thesis
  proof (cases "P x")
    case True
    then show ?thesis
      unfolding last_match_def z by (simp add: case_snoc_last del: upt_Suc)
  next
    case False
    then show ?thesis
      unfolding last_match_def z by (simp del: upt_Suc)
  qed
qed

text \<open>
  Claim C8, as the code has it. The loop scans all tiers in order. The word tier is the
  last tier whose lower-cased name contains \<open>word\<close>. The phone tier is the last tier
  whose lower-cased name contains \<open>phone\<close> and does not contain \<open>word\<close>: the test
  for \<open>phone\<close> stands in the \<open>elif\<close> branch of the test for \<open>word\<close>.
\<close>

theorem find_tiers_last_match:
  "word_tier_idx (find_tiers tier_names) =
     last_match (\<lambda>n. contains ''word'' (lower n)) tier_names \<and>
   phone_tier_idx (find_tiers tier_names) =
     last_match (\<lambda>n. contains ''phone'' (lower n) \<and> \<not> contains ''word'' (lower n))
       tier_names"
  unfolding find_tiers_def last_match_def tier_fold_word tier_fold_phone
  by (simp del: upt_Suc split: list.split)

text \<open>
  The last tier whose name contains \<open>phone\<close> is tier 2 of the two tiers \<open>phones\<close> and
  \<open>word_phones\<close>; the loop takes tier 2 as the word tier and keeps tier 1 as the phone
  tier.
\<close>

theorem phone_tier_counterexample:
  "phone_tier_idx (find_tiers [''phones'', ''word_phones'']) = Some 1 \<and>
   last_match (contains ''phone'') (map lower [''phones'', ''word_phones'']) = Some 2"
  by code_simp

text \<open>
  On the example tiers the later of the two word tiers and the later of the two phone
  tiers are selected, whatever the case of their letters.
\<close>

theorem find_tiers_last_match_witness:
  "word_tier_idx (find_tiers example_tiers) = Some 3 \<and>
   phone_tier_idx (find_tiers example_tiers) = Some 5"
proof -
  have w: "last_match (\<lambda>n. contains ''word'' (lower n)) example_tiers = Some 3"
    by code_simp
  have p: "last_match (\<lambda>n. contains ''phone'' (lower n) \<and> \<not> contains ''word'' (lower n))
             example_tiers = Some 5"
    by code_simp
  from find_tiers_last_match [of example_tiers] w p show ?thesis
    by (simp only:)
qed

section \<open>A table at the boundary between two grades\<close>

lemma boundary_length: "length boundary_corpus = 20"
  by (simp add: boundary_corpus_def t_rows_def)

lemma boundary_durations:
  "check_duration_anomalies boundary_corpus =
     \<lparr>too_short_vowels = [], too_long_vowels = [],
      too_short_consonants = [duration_entry k_row], too_long_consonants = []\<rparr>"
  by (simp add: check_duration_anomalies_def boundary_corpus_def t_rows_def duration_step_def
        no_duration_anomalies_def t_row_def k_row_def vowel_min_def vowel_max_def
        consonant_min_def consonant_max_def)

lemma boundary_timing:
  "check_timing_gaps (sort_key start_time) boundary_corpus = \<lparr>gaps = [], overlaps = []\<rparr>"
  by (simp add: check_timing_gaps_def boundary_corpus_def t_rows_def timing_file_def
        file_phonemes_def consecutive_def timing_step_def t_row_def k_row_def Let_def)

lemma boundary_unique: "unique (map phoneme boundary_corpus) = [''T'', ''K'']"
  by (simp add: boundary_corpus_def t_rows_def t_row_def k_row_def)

lemma boundary_t: "filter (\<lambda>r. phoneme r = ''T'') boundary_corpus = t_rows"
  by (simp add: boundary_corpus_def t_rows_def t_row_def k_row_def)

lemma boundary_k: "filter (\<lambda>r. phoneme r = ''K'') boundary_corpus = [k_row]"
  by (simp add: boundary_corpus_def t_rows_def t_row_def k_row_def)

lemma t_rows_durations: "map duration t_rows = replicate 19 0.05"
  by (simp add: t_rows_def t_row_def numeral_eq_Suc)

lemma replicate_std:
  assumes "2 \<le> n"
  shows "series_std (replicate n x) = Some 0"
proof -
  from assms have "series_mean (replicate n x) = x"
    by (simp add: series_mean_def sum_list_replicate)
  then have "map (\<lambda>y. (y - series_mean (replicate n x))\<^sup>2) (replicate n x) = replicate n 0"
    by simp
  with assms show ?thesis
    by (simp add: series_std_def sum_list_replicate)
qed

lemma zero_std_no_outlier: "filter (\<lambda>r. 3 < row_z_score m (Some 0) r) rows = []"
  by (simp add: row_z_score_def)

lemma boundary_outliers: "check_phoneme_distribution boundary_corpus = []"
  unfolding check_phoneme_distribution_def boundary_unique
  by (simp add: distribution_step_def boundary_t boundary_k t_rows_durations replicate_std
        outlier_fold zero_std_no_outlier Let_def)

text \<open>
  One short consonant among twenty phonemes is an error rate of exactly 5 percent, and
  the grade is GOOD.
\<close>

theorem generate_quality_report_grade_witness:
  "0 < length boundary_corpus \<and>
   (\<exists>s. generate_quality_report (sort_key start_time) boundary_corpus [] = Inr s \<and>
        error_rate s = 5 \<and> qs_grade s = GOOD)"
proof -
  have pos: "0 < length boundary_corpus"
    by (simp add: boundary_length)
  from generate_quality_report_grade [OF pos, of "sort_key start_time" "[]"]
  obtain s where s: "generate_quality_report (sort_key start_time) boundary_corpus [] = Inr s"
    and rate: "error_rate s =
       real (length (too_short_vowels (check_duration_anomalies boundary_corpus)) +
             length (too_long_vowels (check_duration_anomalies boundary_corpus)) +
             length (too_short_consonants (check_duration_anomalies boundary_corpus)) +
             length (too_long_consonants (check_duration_anomalies boundary_corpus)) +
             length (gaps (check_timing_gaps (sort_key start_time) boundary_corpus)) +
             length (overlaps (check_timing_gaps (sort_key start_time) boundary_corpus)) +
             length (check_phoneme_distribution boundary_corpus) +
             length (check_word_phoneme_consistency boundary_corpus [])) /
       real (length boundary_corpus) * 100"
    and good: "(qs_grade s = GOOD) = (5 \<le> error_rate s \<and> error_rate s < 10)"
    by blast
  have "error_rate s = 5"
    unfolding rate boundary_durations boundary_timing boundary_outliers boundary_length
    by (simp add: check_word_phoneme_consistency_def)
  with s good pos show ?thesis by simp
qed

end
